theory Spec2Isabelle
  imports Main "HOL-Library.Word"
begin

section \<open>JavaScript values\<close>

text \<open>
  The server of \<^verbatim>\<open>src/index.ts\<close> answers one WebSocket message with one course
  generation run.  Everything it handles is dynamically typed data parsed from JSON, so
  the model starts with the values of the language: strings, numbers, and the value tree
  that \<^verbatim>\<open>JSON.parse\<close> returns.
\<close>

subsection \<open>Strings\<close>

text \<open>
  A JavaScript string is a sequence of 16-bit code units, and the regular expressions of
  the program (none has the \<^verbatim>\<open>u\<close> flag) work on code units.  \<open>ascii\<close> embeds a
  literal of the source.
\<close>

type_synonym jschar = "16 word"
type_synonym jstring = "jschar list"

definition ascii :: "string \<Rightarrow> jstring" where
  "ascii s = map (\<lambda>c. of_nat (of_char c)) s"

text \<open>
  \<^verbatim>\<open>WhiteSpace\<close> and \<^verbatim>\<open>LineTerminator\<close> of ECMAScript: the code units that
  \<^verbatim>\<open>String.prototype.trim\<close> removes and that may surround a numeric literal.
\<close>

definition isWhiteSpace :: "jschar \<Rightarrow> bool" where
  "isWhiteSpace c \<longleftrightarrow>
     c = 0x09 \<or> c = 0x0A \<or> c = 0x0B \<or> c = 0x0C \<or> c = 0x0D \<or> c = 0x20 \<or> c = 0xA0 \<or>
     c = 0x1680 \<or> (0x2000 \<le> c \<and> c \<le> 0x200A) \<or> c = 0x2028 \<or> c = 0x2029 \<or>
     c = 0x202F \<or> c = 0x205F \<or> c = 0x3000 \<or> c = 0xFEFF"

definition trim :: "jstring \<Rightarrow> jstring" where
  "trim s = rev (dropWhile isWhiteSpace (rev (dropWhile isWhiteSpace s)))"

text \<open>
  \<^verbatim>\<open>for (const x of s)\<close> on a string yields code points: a high surrogate followed by
  a low surrogate is one element.
\<close>

fun codePoints :: "jstring \<Rightarrow> jstring list" where
  "codePoints [] = []"
| "codePoints [c] = [[c]]"
| "codePoints (c # d # cs) =
     (if 0xD800 \<le> c \<and> c \<le> 0xDBFF \<and> 0xDC00 \<le> d \<and> d \<le> 0xDFFF
      then [c, d] # codePoints cs
      else [c] # codePoints (d # cs))"

fun join_comma :: "jstring list \<Rightarrow> jstring" where
  "join_comma [] = []"
| "join_comma [s] = s"
| "join_comma (s # t # ts) = s @ 0x2C # join_comma (t # ts)"

subsection \<open>Numbers\<close>

text \<open>
  A JavaScript number is an IEEE 754 double.  \<open>Fin m e\<close> is the finite value
  \<open>m * 2 ^ e\<close>, kept with \<open>m\<close> odd (or \<open>Fin 0 0\<close> for zero) by \<open>dyadic\<close>.
  The sign of a zero is not represented: in this program a zero is only multiplied,
  divided by a length, or printed, where \<open>+0\<close> and \<open>-0\<close> give the same result.

  \<open>round_ratio n d\<close> is the double nearest to the rational \<open>n / d\<close>, ties to the even
  significand, with gradual underflow below \<open>2 ^ -1022\<close> and overflow to an infinity
  from \<open>2 ^ 1024 - 2 ^ 970\<close> on; every arithmetic result goes through it.
\<close>

datatype jsnum = Fin int int | NaN | PosInf | NegInf

function bitlen :: "int \<Rightarrow> int" where
  "bitlen x = (if 0 < x then bitlen (x div 2) + 1 else 0)"
  by pat_completeness auto
termination
  by (relation "measure nat") auto

declare bitlen.simps [simp del]

function dyadic :: "int \<Rightarrow> int \<Rightarrow> jsnum" where
  "dyadic m e =
     (if m = 0 then Fin 0 0
      else if even m then dyadic (m div 2) (e + 1)
      else Fin m e)"
  by pat_completeness auto
termination
  by (relation "measure (\<lambda>(m, e). nat \<bar>m\<bar>)") auto

declare dyadic.simps [simp del]

definition scale :: "int \<Rightarrow> int \<Rightarrow> int" where
  "scale n s = (if 0 \<le> s then n * 2 ^ nat s else n)"

definition ilog2 :: "int \<Rightarrow> int \<Rightarrow> int" where
  "ilog2 n d =
     (let k = bitlen n - bitlen d
      in if scale d k \<le> scale n (- k) then k else k - 1)"

definition round_even :: "int \<Rightarrow> int \<Rightarrow> int" where
  "round_even n d =
     (let q = n div d; r = n mod d
      in if 2 * r < d then q
         else if d < 2 * r then q + 1
         else if even q then q else q + 1)"

definition round_pos :: "int \<Rightarrow> int \<Rightarrow> (int \<times> int) option" where
  "round_pos n d =
     (let p = max (ilog2 n d - 52) (- 1074);
          m = round_even (scale n (- p)) (scale d p)
      in if 1024 < bitlen m + p then None else Some (m, p))"

definition round_ratio :: "int \<Rightarrow> int \<Rightarrow> jsnum" where
  "round_ratio n d =
     (if d = 0 then NaN
      else if n = 0 then Fin 0 0
      else case round_pos \<bar>n\<bar> \<bar>d\<bar> of
             None \<Rightarrow> (if (n < 0) = (d < 0) then PosInf else NegInf)
           | Some (m, p) \<Rightarrow> dyadic (if (n < 0) = (d < 0) then m else - m) p)"

definition num :: "int \<Rightarrow> jsnum" where
  "num n = round_ratio n 1"

text \<open>The operators \<^verbatim>\<open>*\<close> and \<^verbatim>\<open>/\<close> on numbers.\<close>

fun times_js :: "jsnum \<Rightarrow> jsnum \<Rightarrow> jsnum" where
  "times_js NaN y = NaN"
| "times_js x NaN = NaN"
| "times_js (Fin m e) (Fin m' e') =
     round_ratio (scale (m * m') (e + e')) (scale 1 (- (e + e')))"
| "times_js (Fin m e) PosInf = (if m = 0 then NaN else if 0 < m then PosInf else NegInf)"
| "times_js (Fin m e) NegInf = (if m = 0 then NaN else if 0 < m then NegInf else PosInf)"
| "times_js PosInf (Fin m e) = (if m = 0 then NaN else if 0 < m then PosInf else NegInf)"
| "times_js NegInf (Fin m e) = (if m = 0 then NaN else if 0 < m then NegInf else PosInf)"
| "times_js PosInf PosInf = PosInf"
| "times_js PosInf NegInf = NegInf"
| "times_js NegInf PosInf = NegInf"
| "times_js NegInf NegInf = PosInf"

fun divide_js :: "jsnum \<Rightarrow> jsnum \<Rightarrow> jsnum" where
  "divide_js NaN y = NaN"
| "divide_js x NaN = NaN"
| "divide_js (Fin m e) (Fin m' e') =
     (if m' = 0 then (if m = 0 then NaN else if 0 < m then PosInf else NegInf)
      else round_ratio (scale m (e - e')) (scale m' (e' - e)))"
| "divide_js (Fin m e) PosInf = Fin 0 0"
| "divide_js (Fin m e) NegInf = Fin 0 0"
| "divide_js PosInf (Fin m e) = (if 0 \<le> m then PosInf else NegInf)"
| "divide_js NegInf (Fin m e) = (if 0 \<le> m then NegInf else PosInf)"
| "divide_js PosInf y = NaN"
| "divide_js NegInf y = NaN"

text \<open>
  \<^verbatim>\<open>StringToNumber\<close>: the text is trimmed; the empty text is 0; a
  \<^verbatim>\<open>StrNumericLiteral\<close> (a signed decimal with optional fraction and exponent,
  \<^verbatim>\<open>Infinity\<close>, or an unsigned binary, octal or hexadecimal integer) is its rounded
  value; anything else is \<open>NaN\<close>.
\<close>

definition digitOf :: "jschar \<Rightarrow> nat option" where
  "digitOf c =
     (if 0x30 \<le> c \<and> c \<le> 0x39 then Some (unat c - 48)
      else if 0x61 \<le> c \<and> c \<le> 0x66 then Some (unat c - 87)
      else if 0x41 \<le> c \<and> c \<le> 0x46 then Some (unat c - 55)
      else None)"

definition isDigit :: "nat \<Rightarrow> jschar \<Rightarrow> bool" where
  "isDigit b c = (case digitOf c of None \<Rightarrow> False | Some v \<Rightarrow> v < b)"

definition digitsValue :: "nat \<Rightarrow> jstring \<Rightarrow> int" where
  "digitsValue b ds = foldl (\<lambda>a c. a * int b + int (the (digitOf c))) 0 ds"

definition nonDecimalLiteral :: "jstring \<Rightarrow> int option" where
  "nonDecimalLiteral s =
     (case s of
        z # x # ds \<Rightarrow>
          (let b = (if x = 0x78 \<or> x = 0x58 then 16
                    else if x = 0x6F \<or> x = 0x4F then 8
                    else if x = 0x62 \<or> x = 0x42 then 2 else (0::nat))
           in if z = 0x30 \<and> b \<noteq> 0 \<and> ds \<noteq> [] \<and> list_all (isDigit b) ds
              then Some (digitsValue b ds) else None)
      | _ \<Rightarrow> None)"

definition exponentPart :: "jstring \<Rightarrow> int option" where
  "exponentPart s =
     (case s of
        [] \<Rightarrow> Some 0
      | c # r \<Rightarrow>
          if c = 0x65 \<or> c = 0x45 then
            (let neg = (r \<noteq> [] \<and> hd r = 0x2D);
                 ds = (if r \<noteq> [] \<and> (hd r = 0x2B \<or> hd r = 0x2D) then tl r else r)
             in if ds \<noteq> [] \<and> list_all (isDigit 10) ds
                then Some (if neg then - digitsValue 10 ds else digitsValue 10 ds)
                else None)
          else None)"

definition unsignedDecimal :: "jstring \<Rightarrow> (int \<times> int) option" where
  "unsignedDecimal s =
     (let ip = takeWhile (isDigit 10) s;
          r1 = dropWhile (isDigit 10) s;
          dot = (r1 \<noteq> [] \<and> hd r1 = 0x2E);
          fp = (if dot then takeWhile (isDigit 10) (tl r1) else []);
          r2 = (if dot then dropWhile (isDigit 10) (tl r1) else r1)
      in if ip = [] \<and> fp = [] then None
         else case exponentPart r2 of
                None \<Rightarrow> None
              | Some x \<Rightarrow> Some (digitsValue 10 (ip @ fp), x - int (length fp)))"

definition StringToNumber :: "jstring \<Rightarrow> jsnum" where
  "StringToNumber s =
     (let t = trim s in
      if t = [] then Fin 0 0
      else case nonDecimalLiteral t of
             Some n \<Rightarrow> num n
           | None \<Rightarrow>
               (let neg = (hd t = 0x2D);
                    u = (if hd t = 0x2B \<or> hd t = 0x2D then tl t else t)
                in if u = ascii ''Infinity'' then (if neg then NegInf else PosInf)
                   else case unsignedDecimal u of
                          None \<Rightarrow> NaN
                        | Some (n, x) \<Rightarrow>
                            (let n' = (if neg then - n else n)
                             in if 0 \<le> x then round_ratio (n' * 10 ^ nat x) 1
                                else round_ratio n' (10 ^ nat (- x)))))"

subsection \<open>Values and property access\<close>

text \<open>
  The value tree of \<^verbatim>\<open>JSON.parse\<close>, with \<^verbatim>\<open>undefined\<close> for what a missing
  property reads as.  An object is the list of its own properties, each name once.
\<close>

datatype jsval =
    JUndefined
  | JNull
  | JBool bool
  | JNum jsnum
  | JStr jstring
  | JArr "jsval list"
  | JObj "(jstring \<times> jsval) list"

text \<open>
  Every \<^verbatim>\<open>throw\<close> of the program and every exception its property accesses can
  raise.  \<open>GenerationExhausted n\<close> is \<^verbatim>\<open>Error(`Failed after ${n} attempts.`)\<close>.
\<close>

datatype error =
    SyntaxError
  | TypeError
  | MissingTopicOrUserId
  | MissingApiKey nat
  | GenerationExhausted nat
  | PersistenceError

definition nullish :: "jsval \<Rightarrow> bool" where
  "nullish v \<longleftrightarrow> v = JUndefined \<or> v = JNull"

text \<open>
  \<open>propOf v name\<close> is \<^verbatim>\<open>v.name\<close> for a \<open>v\<close> that is neither \<^verbatim>\<open>null\<close> nor
  \<^verbatim>\<open>undefined\<close>.  Of the property names the program reads, only \<^verbatim>\<open>length\<close> exists
  on a prototype (of arrays and strings); \<^verbatim>\<open>map\<close> is handled by \<open>map_js\<close>.
\<close>

definition propOf :: "jsval \<Rightarrow> string \<Rightarrow> jsval" where
  "propOf v name =
     (case v of
        JObj kvs \<Rightarrow> (case map_of kvs (ascii name) of Some x \<Rightarrow> x | None \<Rightarrow> JUndefined)
      | JArr xs \<Rightarrow> (if name = ''length'' then JNum (num (int (length xs))) else JUndefined)
      | JStr s \<Rightarrow> (if name = ''length'' then JNum (num (int (length s))) else JUndefined)
      | _ \<Rightarrow> JUndefined)"

definition getProp :: "jsval \<Rightarrow> string \<Rightarrow> error + jsval" where
  "getProp v name = (if nullish v then Inl TypeError else Inr (propOf v name))"

text \<open>\<^verbatim>\<open>for (const x of v)\<close>: arrays and strings are iterable, nothing else in JSON is.\<close>

definition iterate :: "jsval \<Rightarrow> error + jsval list" where
  "iterate v =
     (case v of
        JArr xs \<Rightarrow> Inr xs
      | JStr s \<Rightarrow> Inr (map JStr (codePoints s))
      | _ \<Rightarrow> Inl TypeError)"

text \<open>\<^verbatim>\<open>a ?? b\<close>, the test \<^verbatim>\<open>!v\<close>, and a destructuring default.\<close>

definition coalesce :: "jsval \<Rightarrow> jsval \<Rightarrow> jsval" where
  "coalesce a b = (if nullish a then b else a)"

definition falsy :: "jsval \<Rightarrow> bool" where
  "falsy v =
     (case v of
        JUndefined \<Rightarrow> True
      | JNull \<Rightarrow> True
      | JBool b \<Rightarrow> \<not> b
      | JNum n \<Rightarrow> (case n of Fin m e \<Rightarrow> m = 0 | NaN \<Rightarrow> True | _ \<Rightarrow> False)
      | JStr s \<Rightarrow> s = []
      | _ \<Rightarrow> False)"

definition withDefault :: "jsval \<Rightarrow> jsval \<Rightarrow> jsval" where
  "withDefault v d = (if v = JUndefined then d else v)"

text \<open>
  \<^verbatim>\<open>ToString\<close> and \<^verbatim>\<open>ToNumber\<close>.  The decimal printing of a number is taken as a
  parameter \<open>ns\<close> (\<^verbatim>\<open>Number.prototype.toString\<close>).
\<close>

fun ToString :: "(jsnum \<Rightarrow> jstring) \<Rightarrow> jsval \<Rightarrow> jstring" where
  "ToString ns JUndefined = ascii ''undefined''"
| "ToString ns JNull = ascii ''null''"
| "ToString ns (JBool b) = (if b then ascii ''true'' else ascii ''false'')"
| "ToString ns (JNum n) = ns n"
| "ToString ns (JStr s) = s"
| "ToString ns (JArr xs) =
     join_comma (map (\<lambda>x. if x = JUndefined \<or> x = JNull then [] else ToString ns x) xs)"
| "ToString ns (JObj kvs) = ascii ''[object Object]''"

definition ToNumber :: "(jsnum \<Rightarrow> jstring) \<Rightarrow> jsval \<Rightarrow> jsnum" where
  "ToNumber ns v =
     (case v of
        JUndefined \<Rightarrow> NaN
      | JNull \<Rightarrow> Fin 0 0
      | JBool b \<Rightarrow> (if b then num 1 else Fin 0 0)
      | JNum n \<Rightarrow> n
      | JStr s \<Rightarrow> StringToNumber s
      | _ \<Rightarrow> StringToNumber (ToString ns v))"

section \<open>StructuredGenerator: \<^verbatim>\<open>generateValidJsonWithRetries\<close>\<close>

subsection \<open>The normalization chain (index.ts, lines 35 to 44)\<close>

text \<open>
  Six string operations in the order of the source.  A global \<^verbatim>\<open>replace\<close> scans from
  the left and continues after each match; the alternative \<^verbatim>\<open>```json\<close> is tried before
  \<^verbatim>\<open>```\<close> at every position.
\<close>

definition fence :: jstring where
  "fence = [0x60, 0x60, 0x60]"

definition fence_json :: jstring where
  "fence_json = [0x60, 0x60, 0x60, 0x6A, 0x73, 0x6F, 0x6E]"

function replace_fences :: "jstring \<Rightarrow> jstring" where
  "replace_fences s =
     (if s = [] then []
      else if take 7 s = fence_json then replace_fences (drop 7 s)
      else if take 3 s = fence then replace_fences (drop 3 s)
      else hd s # replace_fences (tl s))"
  by pat_completeness auto
termination
  by (relation "measure length") auto

declare replace_fences.simps [simp del]

definition replace_cr :: "jstring \<Rightarrow> jstring" where
  "replace_cr s = filter (\<lambda>c. c \<noteq> 0x0D) s"

definition replace_nul :: "jstring \<Rightarrow> jstring" where
  "replace_nul s = filter (\<lambda>c. c \<noteq> 0x00) s"

definition replace_leading :: "jstring \<Rightarrow> jstring" where
  "replace_leading s = dropWhile (\<lambda>c. c \<noteq> 0x7B \<and> c \<noteq> 0x5B) s"

definition isControl :: "jschar \<Rightarrow> bool" where
  "isControl c \<longleftrightarrow> c \<le> 0x1F \<or> c = 0x7F"

definition replace_control :: "jstring \<Rightarrow> jstring" where
  "replace_control s = filter (\<lambda>c. \<not> isControl c \<or> c = 0x0A \<or> c = 0x09) s"

definition normalize_text :: "jstring \<Rightarrow> jstring" where
  "normalize_text s =
     trim (replace_control (replace_leading (replace_nul (replace_cr (replace_fences s)))))"

text \<open>Whether a text contains the fence marker \<^verbatim>\<open>```\<close>.\<close>

fun hasFence :: "jstring \<Rightarrow> bool" where
  "hasFence [] = False"
| "hasFence (c # cs) = (take 3 (c # cs) = fence \<or> hasFence cs)"

section \<open>Data of a run\<close>

text \<open>
  The personalization fields of the request, after destructuring with their defaults
  (index.ts, lines 65 to 72).
\<close>

record personalization_fields =
  level :: jsval
  preferredTopics :: jsval
  dislikedTopics :: jsval
  goal :: jsval
  timeCommitment :: jsval
  learningStyle :: jsval

record request =
  topic :: jsval
  userId :: jsval
  personalization :: personalization_fields

text \<open>The object literal \<^verbatim>\<open>contentBlock\<close> of lines 148 to 156.\<close>

record contentBlock =
  cb_id :: jstring
  cb_order :: jsval
  cb_type :: jsval
  cb_text :: jsval
  cb_code :: jsval
  cb_math :: jsval
  cb_graph :: jsval

text \<open>The element pushed on \<^verbatim>\<open>lessons\<close> at lines 187 to 193.\<close>

record lessonRec =
  lessonTitle :: jsval
  lessonDuration :: jsval
  lessonContext :: jsval
  allContentBlocks :: "contentBlock list"
  quizJson :: jsval

text \<open>
  A prompt is the text returned by one of the five builders (lines 282 to 621): a fixed
  template with the arguments spliced in.  The model keeps the arguments that the
  template uses; a backend that reads the text is a function of them.
\<close>

datatype prompt =
    SyllabusPrompt jsval personalization_fields
  | LessonContextPrompt jsval personalization_fields
  | AllSectionsContentPrompt jsval jsval personalization_fields
  | QuizPrompt jsval "contentBlock list" personalization_fields
  | PostCourseDataPrompt jsval personalization_fields

text \<open>The argument of \<^verbatim>\<open>db.course.create\<close> (lines 214 to 264).\<close>

record questionData =
  q_number :: jsval
  q_question :: jsval
  q_type :: jsval
  q_options :: jsval
  q_marks :: jsval
  q_correctAnswers :: jsval
  q_explanation :: jsval
  q_rubric :: jsval

record quizData =
  quiz_title :: jsval
  quiz_duration :: jsval
  quiz_totalMarks :: jsval
  quiz_passingMarks :: jsval
  quiz_isCompleted :: bool
  quiz_gainedMarks :: nat
  quiz_timeTaken :: nat
  quiz_questions :: "questionData list"

record blockData =
  b_order :: nat
  b_type :: jsval
  b_text :: jsval
  b_code :: jsval
  b_math :: jsval
  b_graph :: jsval

record lessonData =
  les_title :: jsval
  les_description :: jsval
  les_duration :: jsval
  les_order :: nat
  les_contentBlocks :: "blockData list"
  les_quizz :: quizData

record courseData =
  c_title :: jsval
  c_description :: jsval
  c_user :: jsval
  c_lessons :: "lessonData list"
  c_summary :: jsval
  c_keyPoints :: jsval
  c_analytics :: jsval

text \<open>
  What \<^verbatim>\<open>sendData\<close> writes to the socket.  The four plain-text notices are an
  enumeration; the other events are the objects tagged by \<^verbatim>\<open>step\<close>.
\<close>

datatype notice = GeneratingSyllabus | GeneratingPostCourse | SavingToDatabase | GenerationComplete

datatype event =
    SyllabusStarted
  | Notice notice
  | SyllabusCompleted jsval
  | LessonStarted jsval
  | ContentBlockEvent jsval jsval contentBlock
  | QuizCompleted jsval
  | Completed jsval
  | ErrorEvent

fun isTerminal :: "event \<Rightarrow> bool" where
  "isTerminal (Completed cid) = True"
| "isTerminal ErrorEvent = True"
| "isTerminal e = False"

text \<open>
  The effects of a run, in the order they happen: the prompts sent to the backend, the
  back-off delays in milliseconds, the number of identifiers drawn, the events sent,
  the arguments of the persistence calls, and whether the socket was closed.
\<close>

record world =
  backend_calls :: "prompt list"
  delays :: "nat list"
  uuid_calls :: nat
  sent :: "event list"
  db_calls :: "courseData list"
  closed :: bool

definition world0 :: world where
  "world0 = \<lparr>backend_calls = [], delays = [], uuid_calls = 0, sent = [], db_calls = [],
     closed = False\<rparr>"

text \<open>
  The collaborators and built-ins the program calls but does not define.
  \<open>generateContent en i p\<close> is the text of the response to the call number \<open>i\<close>
  (counted from 0 over the run) with prompt \<open>p\<close>, or \<open>None\<close> when the call or
  \<^verbatim>\<open>response.text()\<close> throws; \<open>course_create\<close> returns the identifier of the created
  course, or \<open>None\<close> when the store rejects the write; \<open>Math_floor_random en n\<close> is
  \<^verbatim>\<open>Math.floor(Math.random() * n)\<close>; \<open>process_env en i\<close> is the environment variable
  \<^verbatim>\<open>GEMINI_API_KEY_i\<close>.
\<close>

record env =
  JSON_parse :: "jstring \<Rightarrow> jsval option"
  generateContent :: "nat \<Rightarrow> prompt \<Rightarrow> jstring option"
  randomUUID :: "nat \<Rightarrow> jstring"
  course_create :: "courseData \<Rightarrow> jsval option"
  Number_toString :: "jsnum \<Rightarrow> jstring"
  Math_floor_random :: "nat \<Rightarrow> nat"
  process_env :: "nat \<Rightarrow> jstring option"

definition TOTAL_KEYS :: nat where
  "TOTAL_KEYS = 24"


subsection \<open>Sequencing\<close>

text \<open>
  A statement either completes with a value or throws, and changes the world either
  way.  \<open>andThen\<close> is the semicolon: the rest runs only when the first part completes.
\<close>

type_synonym 'a io = "world \<Rightarrow> (error + 'a) \<times> world"

definition andThen :: "'a io \<Rightarrow> ('a \<Rightarrow> 'b io) \<Rightarrow> 'b io" where
  "andThen m f w = (case m w of (Inl e, w') \<Rightarrow> (Inl e, w') | (Inr x, w') \<Rightarrow> f x w')"


definition andThenE :: "error + 'a \<Rightarrow> ('a \<Rightarrow> error + 'b) \<Rightarrow> error + 'b" where
  "andThenE r f = (case r of Inl e \<Rightarrow> Inl e | Inr x \<Rightarrow> f x)"

definition sendData :: "event \<Rightarrow> unit io" where
  "sendData d w = (Inr (), w\<lparr>sent := sent w @ [d]\<rparr>)"


definition crypto_randomUUID :: "env \<Rightarrow> jstring io" where
  "crypto_randomUUID en w = (Inr (randomUUID en (uuid_calls w)), w\<lparr>uuid_calls := Suc (uuid_calls w)\<rparr>)"

definition getRandomApiKey :: "env \<Rightarrow> error + jstring" where
  "getRandomApiKey en =
     (let keyIndex = Math_floor_random en TOTAL_KEYS + 1 in
      case process_env en keyIndex of
        None \<Rightarrow> Inl (MissingApiKey keyIndex)
      | Some selectedKey \<Rightarrow>
          if selectedKey = [] then Inl (MissingApiKey keyIndex) else Inr selectedKey)"

subsection \<open>The retry loop (lines 27 to 53)\<close>

text \<open>
  \<open>attemptResult\<close> is the body of the \<^verbatim>\<open>try\<close>: the call, the normalization and
  \<^verbatim>\<open>JSON.parse\<close>; \<open>None\<close> is any exception, whichever statement threw.
  \<open>retryLoop\<close> is the \<^verbatim>\<open>for\<close> loop from a given value of \<^verbatim>\<open>attempt\<close>; when the
  loop condition fails the function falls off its end and returns \<^verbatim>\<open>undefined\<close>.
\<close>

definition attemptResult :: "env \<Rightarrow> nat \<Rightarrow> prompt \<Rightarrow> jsval option" where
  "attemptResult en i p =
     (case generateContent en i p of
        None \<Rightarrow> None
      | Some text \<Rightarrow> JSON_parse en (normalize_text text))"

function retryLoop :: "env \<Rightarrow> prompt \<Rightarrow> nat \<Rightarrow> nat \<Rightarrow> jsval io" where
  "retryLoop en p maxRetries attempt w =
     (if attempt \<le> maxRetries then
        (let w1 = w\<lparr>backend_calls := backend_calls w @ [p]\<rparr> in
         case attemptResult en (length (backend_calls w)) p of
           Some v \<Rightarrow> (Inr v, w1)
         | None \<Rightarrow>
             if attempt = maxRetries then (Inl (GenerationExhausted maxRetries), w1)
             else retryLoop en p maxRetries (attempt + 1)
                    (w1\<lparr>delays := delays w1 @ [1000 * attempt]\<rparr>))
      else (Inr JUndefined, w))"
  by pat_completeness auto
termination
  by (relation "measure (\<lambda>(en, p, maxRetries, attempt, w). Suc maxRetries - attempt)") auto

declare retryLoop.simps [simp del]

definition generateValidJsonWithRetries :: "env \<Rightarrow> prompt \<Rightarrow> nat \<Rightarrow> jsval io" where
  "generateValidJsonWithRetries en p maxRetries = retryLoop en p maxRetries 1"

section \<open>PipelineOrchestrator: the message handler (lines 58 to 277)\<close>

subsection \<open>Prompt builders\<close>



definition getAllSectionsContentPrompt :: "jsval \<Rightarrow> personalization_fields \<Rightarrow> error + prompt" where
  "getAllSectionsContentPrompt ctx ps =
     andThenE (getProp ctx ''title'') (\<lambda>title.
     andThenE (getProp ctx ''objective'') (\<lambda>objective.
       Inr (AllSectionsContentPrompt title objective ps)))"



subsection \<open>Request (lines 60 to 74)\<close>

definition parseRequest :: "env \<Rightarrow> jstring \<Rightarrow> error + request" where
  "parseRequest en message =
     (case JSON_parse en message of
        None \<Rightarrow> Inl SyntaxError
      | Some parsed \<Rightarrow>
          if nullish parsed then Inl TypeError
          else
            let p = withDefault (propOf parsed ''personalization'') (JObj []) in
            if nullish p then Inl TypeError
            else
              let req = \<lparr>topic = propOf parsed ''topic'',
                         userId = propOf parsed ''userId'',
                         personalization =
                           \<lparr>level = withDefault (propOf p ''level'') (JStr []),
                            preferredTopics = withDefault (propOf p ''preferredTopics'') (JStr []),
                            dislikedTopics = withDefault (propOf p ''dislikedTopics'') (JStr []),
                            goal = withDefault (propOf p ''goal'') (JStr []),
                            timeCommitment = withDefault (propOf p ''timeCommitment'') (JStr []),
                            learningStyle = withDefault (propOf p ''learningStyle'') (JStr [])\<rparr>\<rparr>
              in if falsy (topic req) \<or> falsy (userId req) then Inl MissingTopicOrUserId
                 else Inr req)"

subsection \<open>Time budgets (lines 96 to 99)\<close>

text \<open>The literals \<^verbatim>\<open>0.8\<close> and \<^verbatim>\<open>0.2\<close> are the doubles nearest to 4/5 and 1/5.\<close>

definition lit_0_8 :: jsnum where
  "lit_0_8 = round_ratio 8 10"

definition lit_0_2 :: jsnum where
  "lit_0_2 = round_ratio 2 10"

definition totalTimeMinutes :: "env \<Rightarrow> jsval \<Rightarrow> jsnum" where
  "totalTimeMinutes en tc = times_js (ToNumber (Number_toString en) tc) (num 60)"

definition lessonTimePerLesson :: "env \<Rightarrow> jsval \<Rightarrow> jsval \<Rightarrow> jsnum" where
  "lessonTimePerLesson en tc numberOfLessons =
     divide_js (times_js (totalTimeMinutes en tc) lit_0_8)
       (ToNumber (Number_toString en) numberOfLessons)"

definition quizTimePerLesson :: "env \<Rightarrow> jsval \<Rightarrow> jsval \<Rightarrow> jsnum" where
  "quizTimePerLesson en tc numberOfLessons =
     divide_js (times_js (totalTimeMinutes en tc) lit_0_2)
       (ToNumber (Number_toString en) numberOfLessons)"

definition timeBudgets :: "env \<Rightarrow> jsval \<Rightarrow> jsval \<Rightarrow> error + (jsnum \<times> jsnum)" where
  "timeBudgets en tc syllabusJson =
     andThenE (getProp syllabusJson ''lessons'') (\<lambda>lessons.
     andThenE (getProp lessons ''length'') (\<lambda>numberOfLessons.
       Inr (lessonTimePerLesson en tc numberOfLessons, quizTimePerLesson en tc numberOfLessons)))"

subsection \<open>Content blocks of a lesson (lines 145 to 168)\<close>

definition contentBlockOf :: "jstring \<Rightarrow> jsval \<Rightarrow> contentBlock" where
  "contentBlockOf uid block =
     \<lparr>cb_id = uid,
      cb_order = coalesce (propOf block ''order'') (JNum (Fin 0 0)),
      cb_type = propOf block ''type'',
      cb_text = (if propOf block ''type'' = JStr (ascii ''TEXT'')
                 then propOf block ''content'' else JUndefined),
      cb_code = (if propOf block ''type'' = JStr (ascii ''CODE'')
                 then propOf block ''content'' else JUndefined),
      cb_math = (if propOf block ''type'' = JStr (ascii ''MATH'')
                 then propOf block ''content'' else JUndefined),
      cb_graph = (if propOf block ''type'' = JStr (ascii ''GRAPH'')
                  then propOf block ''content'' else JUndefined)\<rparr>"

text \<open>Reading a property of a \<^verbatim>\<open>null\<close> block throws.\<close>

definition makeContentBlock :: "jstring \<Rightarrow> jsval \<Rightarrow> error + contentBlock" where
  "makeContentBlock uid block =
     (if nullish block then Inl TypeError else Inr (contentBlockOf uid block))"



subsection \<open>One lesson (lines 109 to 193) and the lesson loop\<close>



subsection \<open>The argument of \<^verbatim>\<open>db.course.create\<close> (lines 215 to 263)\<close>

fun mapE :: "('a \<Rightarrow> error + 'b) \<Rightarrow> 'a list \<Rightarrow> error + 'b list" where
  "mapE f [] = Inr []"
| "mapE f (x # xs) =
     andThenE (f x) (\<lambda>y. andThenE (mapE f xs) (\<lambda>ys. Inr (y # ys)))"

text \<open>
  \<^verbatim>\<open>v.map(f)\<close> on a value from JSON: only an array has a callable \<^verbatim>\<open>map\<close>.
\<close>

definition map_js :: "jsval \<Rightarrow> (jsval \<Rightarrow> error + 'b) \<Rightarrow> error + 'b list" where
  "map_js v f = (case v of JArr xs \<Rightarrow> mapE f xs | _ \<Rightarrow> Inl TypeError)"

definition questionOf :: "jsval \<Rightarrow> error + questionData" where
  "questionOf q =
     (if nullish q then Inl TypeError
      else Inr \<lparr>q_number = propOf q ''number'',
                q_question = propOf q ''question'',
                q_type = propOf q ''type'',
                q_options = coalesce (propOf q ''options'') (JArr []),
                q_marks = propOf q ''marks'',
                q_correctAnswers = coalesce (propOf q ''correctAnswers'') (JArr []),
                q_explanation = coalesce (propOf q ''explanation'')
                                  (JStr (ascii ''Explanation not provided.'')),
                q_rubric = coalesce (propOf q ''rubric'') (JArr [])\<rparr>)"

definition blockDataOf :: "nat \<Rightarrow> contentBlock \<Rightarrow> blockData" where
  "blockDataOf blockIdx block =
     \<lparr>b_order = blockIdx + 1, b_type = cb_type block, b_text = cb_text block,
      b_code = cb_code block, b_math = cb_math block, b_graph = cb_graph block\<rparr>"

definition quizDataOf :: "env \<Rightarrow> lessonRec \<Rightarrow> error + quizData" where
  "quizDataOf en l =
     andThenE (getProp (lessonContext l) ''title'') (\<lambda>title.
     andThenE (getProp (quizJson l) ''duration'') (\<lambda>duration.
     andThenE (getProp (quizJson l) ''totalMarks'') (\<lambda>totalMarks.
     andThenE (getProp (quizJson l) ''passingMarks'') (\<lambda>passingMarks.
     andThenE (getProp (quizJson l) ''questions'') (\<lambda>questions.
     andThenE (map_js questions questionOf) (\<lambda>qs.
       Inr \<lparr>quiz_title = JStr (ToString (Number_toString en) title @ ascii '' Quiz''),
            quiz_duration = duration,
            quiz_totalMarks = totalMarks,
            quiz_passingMarks = passingMarks,
            quiz_isCompleted = False,
            quiz_gainedMarks = 0,
            quiz_timeTaken = 0,
            quiz_questions = qs\<rparr>))))))"

definition lessonDataOf :: "env \<Rightarrow> nat \<Rightarrow> lessonRec \<Rightarrow> error + lessonData" where
  "lessonDataOf en idx l =
     andThenE (getProp (lessonContext l) ''title'') (\<lambda>title.
     andThenE (getProp (lessonContext l) ''objective'') (\<lambda>objective.
     andThenE (quizDataOf en l) (\<lambda>quizz.
       Inr \<lparr>les_title = title,
            les_description = objective,
            les_duration = lessonDuration l,
            les_order = idx,
            les_contentBlocks =
              map (\<lambda>(blockIdx, block). blockDataOf blockIdx block)
                (enumerate 0 (allContentBlocks l)),
            les_quizz = quizz\<rparr>)))"

definition courseDataOf ::
  "env \<Rightarrow> request \<Rightarrow> jsval \<Rightarrow> lessonRec list \<Rightarrow> jsval \<Rightarrow> error + courseData" where
  "courseDataOf en req syllabusJson lessons postCourse =
     andThenE (getProp syllabusJson ''title'') (\<lambda>title.
     andThenE (getProp syllabusJson ''description'') (\<lambda>description.
     andThenE (mapE (\<lambda>(idx, l). lessonDataOf en idx l) (enumerate 0 lessons)) (\<lambda>ls.
     andThenE (getProp postCourse ''summary'') (\<lambda>summary.
     andThenE (getProp postCourse ''keyPoints'') (\<lambda>keyPoints.
     andThenE (getProp postCourse ''analytics'') (\<lambda>analytics.
       Inr \<lparr>c_title = title, c_description = description, c_user = userId req,
            c_lessons = ls, c_summary = summary, c_keyPoints = keyPoints,
            c_analytics = analytics\<rparr>))))))"


subsection \<open>The handler\<close>




section \<open>Properties of runs\<close>

text \<open>
  Vocabulary for the theorems.  \<open>quiet w w'\<close>: between the two worlds nothing was
  persisted, no terminal event was sent and the socket was left as it was.
\<close>

definition quiet :: "world \<Rightarrow> world \<Rightarrow> bool" where
  "quiet w w' \<longleftrightarrow>
     db_calls w' = db_calls w \<and> closed w' = closed w \<and>
     filter isTerminal (sent w') = filter isTerminal (sent w)"

text \<open>
  \<open>pre m\<close>: the statement \<open>m\<close> is quiet and does not throw a persistence error.
  \<open>exh m\<close>: when \<open>m\<close> throws the exhaustion error, the bound was \<open>MAX_RETRIES\<close> and
  the last \<open>MAX_RETRIES\<close> backend calls of the run are the failed attempts, all with
  one prompt.
  \<open>fin en m\<close>: the three ways in which the handler body can end.
\<close>

definition pre :: "'a io \<Rightarrow> bool" where
  "pre m \<longleftrightarrow> (\<forall>w. quiet w (snd (m w)) \<and> fst (m w) \<noteq> Inl PersistenceError)"



text \<open>\<open>pureErr r\<close>: a result that is not one of the two errors raised by a collaborator.\<close>

definition pureErr :: "error + 'a \<Rightarrow> bool" where
  "pureErr r \<longleftrightarrow>
     (\<forall>e. r = Inl e \<longrightarrow> e \<noteq> PersistenceError \<and> (\<forall>n. e \<noteq> GenerationExhausted n))"

text \<open>
  \<open>succeeds m Q\<close>: from every world \<open>m\<close> completes, quietly, with a value that
  satisfies \<open>Q\<close>.
\<close>

definition succeeds :: "'a io \<Rightarrow> ('a \<Rightarrow> bool) \<Rightarrow> bool" where
  "succeeds m Q \<longleftrightarrow> (\<forall>w. \<exists>x w'. m w = (Inr x, w') \<and> quiet w w' \<and> Q x)"


text \<open>
  The shapes that the prompt templates ask the backend for (the \<^verbatim>\<open>STRUCTURE\<close> blocks
  of the five builders): objects, with arrays of objects where the handler iterates.
\<close>

definition isObj :: "jsval \<Rightarrow> bool" where
  "isObj v = (case v of JObj kvs \<Rightarrow> True | _ \<Rightarrow> False)"



















text \<open>
  The content blocks built from a list of raw blocks when the identifier source stands
  at \<open>n\<close>.
\<close>

fun blocksFrom :: "env \<Rightarrow> nat \<Rightarrow> jsval list \<Rightarrow> contentBlock list" where
  "blocksFrom en n [] = []"
| "blocksFrom en n (b # bs) = contentBlockOf (randomUUID en n) b # blocksFrom en (Suc n) bs"

section \<open>Concrete runs\<close>

text \<open>
  Inputs on which the model is evaluated below.  \<open>parse_table\<close> stands for
  \<^verbatim>\<open>JSON.parse\<close> on the finitely many texts of one run: the listed texts are valid
  JSON with the listed values, and every other text that occurs is not JSON.
\<close>

definition parse_table :: "(string \<times> jsval) list \<Rightarrow> jstring \<Rightarrow> jsval option" where
  "parse_table tbl t = map_of (map (\<lambda>(s, v). (ascii s, v)) tbl) t"

definition no_personalization :: personalization_fields where
  "no_personalization = \<lparr>level = JStr [], preferredTopics = JStr [], dislikedTopics = JStr [],
     goal = JStr [], timeCommitment = JStr [], learningStyle = JStr []\<rparr>"

subsection \<open>A backend that fails, then answers prose, then answers fenced JSON\<close>

definition retry_prompt :: prompt where
  "retry_prompt = PostCourseDataPrompt (JStr (ascii ''Sorting'')) no_personalization"

definition retry_env :: env where
  "retry_env =
     \<lparr>JSON_parse = parse_table [(''{}'', JObj [])],
      generateContent = (\<lambda>i p.
        if i = 0 then None
        else if i = 1 then Some (ascii ''I cannot answer that.'')
        else Some (fence_json @ ascii ''{}'' @ fence)),
      randomUUID = (\<lambda>i. []),
      course_create = (\<lambda>d. None),
      Number_toString = (\<lambda>n. []),
      Math_floor_random = (\<lambda>n. 0),
      process_env = (\<lambda>i. None)\<rparr>"

subsection \<open>Two backticks, a carriage return, a backtick\<close>

definition split_fence :: jstring where
  "split_fence = [0x7B, 0x60, 0x60, 0x0D, 0x60]"

subsection \<open>A small course\<close>

text \<open>
  A request without personalization and the five answers of a backend: a syllabus of
  three lessons after a sentence of prose, a lesson context, three sections of two blocks
  each inside a fence (the first block carries an order hint), a quiz with one question,
  and the post-course data.  Each text is paired with the value that \<^verbatim>\<open>JSON.parse\<close>
  returns for it.
\<close>

definition obj :: "(string \<times> jsval) list \<Rightarrow> jsval" where
  "obj kvs = JObj (map (\<lambda>(k, v). (ascii k, v)) kvs)"

definition str :: "string \<Rightarrow> jsval" where
  "str s = JStr (ascii s)"

definition demo_message_json :: string where
  \<open>demo_message_json = ''{"topic":"Sorting","userId":"u1"}''\<close>

definition demo_message :: jsval where
  "demo_message = obj [(''topic'', str ''Sorting''), (''userId'', str ''u1'')]"


definition demo_syllabus_json :: string where
  \<open>demo_syllabus_json =
     ''{"title":"Sorting","lessons":[{"title":"Bubble"},{"title":"Merge"},{"title":"Quick","duration":"1 hour"}]}''\<close>

definition demo_lessons :: "jsval list" where
  "demo_lessons =
     [obj [(''title'', str ''Bubble'')], obj [(''title'', str ''Merge'')],
      obj [(''title'', str ''Quick''), (''duration'', str ''1 hour'')]]"

definition demo_syllabus :: jsval where
  "demo_syllabus = obj [(''title'', str ''Sorting''), (''lessons'', JArr demo_lessons)]"

definition demo_context_json :: string where
  \<open>demo_context_json = ''{"title":"Intro","objective":"Learn"}''\<close>

definition demo_context :: jsval where
  "demo_context = obj [(''title'', str ''Intro''), (''objective'', str ''Learn'')]"

definition demo_sections_json :: string where
  \<open>demo_sections_json =
     ''{"sections":[{"title":"A","contentBlocks":[{"type":"TEXT","content":"a","order":9},{"type":"CODE","content":"b"}]},{"title":"B","contentBlocks":[{"type":"MATH","content":"c"},{"type":"GRAPH","content":{}}]},{"title":"C","contentBlocks":[{"type":"TEXT","content":"e"},{"type":"TEXT","content":"f"}]}]}''\<close>

definition demo_section_list :: "jsval list" where
  "demo_section_list =
     [obj [(''title'', str ''A''), (''contentBlocks'', JArr [
        obj [(''type'', str ''TEXT''), (''content'', str ''a''), (''order'', JNum (Fin 9 0))],
        obj [(''type'', str ''CODE''), (''content'', str ''b'')]])],
      obj [(''title'', str ''B''), (''contentBlocks'', JArr [
        obj [(''type'', str ''MATH''), (''content'', str ''c'')],
        obj [(''type'', str ''GRAPH''), (''content'', JObj [])]])],
      obj [(''title'', str ''C''), (''contentBlocks'', JArr [
        obj [(''type'', str ''TEXT''), (''content'', str ''e'')],
        obj [(''type'', str ''TEXT''), (''content'', str ''f'')]])]]"

definition demo_sections :: jsval where
  "demo_sections = obj [(''sections'', JArr demo_section_list)]"

definition demo_quiz_json :: string where
  \<open>demo_quiz_json =
     ''{"title":"Q","totalMarks":50,"questions":[{"number":1,"question":"Sorted?","type":"TRUE_FALSE","marks":50}]}''\<close>

definition demo_quiz :: jsval where
  "demo_quiz = obj [(''title'', str ''Q''), (''totalMarks'', JNum (Fin 25 1)),
     (''questions'', JArr [obj [(''number'', JNum (Fin 1 0)), (''question'', str ''Sorted?''),
        (''type'', str ''TRUE_FALSE''), (''marks'', JNum (Fin 25 1))]])]"

definition demo_post_json :: string where
  \<open>demo_post_json = ''{"summary":{},"keyPoints":[],"analytics":{}}''\<close>

definition demo_post :: jsval where
  "demo_post = obj [(''summary'', JObj []), (''keyPoints'', JArr []), (''analytics'', JObj [])]"

definition demo_table :: "(string \<times> jsval) list" where
  "demo_table =
     [(demo_message_json, demo_message), (demo_syllabus_json, demo_syllabus),
      (demo_context_json, demo_context), (demo_sections_json, demo_sections),
      (demo_quiz_json, demo_quiz), (demo_post_json, demo_post)]"




subsection \<open>The quiz of the second lesson never parses\<close>


subsection \<open>A syllabus without lessons\<close>

definition empty_syllabus_json :: string where
  \<open>empty_syllabus_json = ''{"title":"Sorting","lessons":[]}''\<close>



subsection \<open>Ten hours and five lessons\<close>


subsection \<open>Blocks and questions outside the prompted schema\<close>





section \<open>Evaluation\<close>

text \<open>Unfolding rules that evaluate the model on concrete inputs.\<close>

lemmas norm_eval = normalize_text_def trim_def replace_control_def replace_leading_def
  replace_nul_def replace_cr_def replace_fences.simps fence_def fence_json_def isControl_def
  isWhiteSpace_def

section \<open>The retry bound\<close>


lemma retryLoop_success:
  assumes "attempt + d \<le> maxRetries"
    and "\<forall>j<d. attemptResult en (length (backend_calls w) + j) p = None"
    and "attemptResult en (length (backend_calls w) + d) p = Some v"
  shows "fst (retryLoop en p maxRetries attempt w) = Inr v \<and>
         backend_calls (snd (retryLoop en p maxRetries attempt w)) =
           backend_calls w @ replicate (Suc d) p"
  using assms
proof (induction d arbitrary: attempt w)
  case 0
  then show ?case by (subst (1 2) retryLoop.simps) (simp add: Let_def)
next
  case (Suc d)
  define w' where
    "w' = w\<lparr>backend_calls := backend_calls w @ [p], delays := delays w @ [1000 * attempt]\<rparr>"
  from Suc.prems(2) have none: "attemptResult en (length (backend_calls w)) p = None"
    by (metis add.right_neutral zero_less_Suc)
  from Suc.prems(1) have lt: "attempt \<le> maxRetries" "attempt \<noteq> maxRetries" by simp_all
  have step: "retryLoop en p maxRetries attempt w = retryLoop en p maxRetries (attempt + 1) w'"
    using none lt by (subst retryLoop.simps) (simp add: Let_def w'_def)
  have a: "(attempt + 1) + d \<le> maxRetries" using Suc.prems(1) by simp
  have b: "\<forall>j<d. attemptResult en (length (backend_calls w') + j) p = None"
    using Suc.prems(2) by (auto simp: w'_def)
  have c: "attemptResult en (length (backend_calls w') + d) p = Some v"
    using Suc.prems(3) by (simp add: w'_def)
  from Suc.IH [OF a b c] show ?case
    unfolding step by (simp add: w'_def replicate_app_Cons_same)
qed

lemma retryLoop_exhausted:
  assumes "attempt + d = maxRetries"
    and "\<forall>j\<le>d. attemptResult en (length (backend_calls w) + j) p = None"
  shows "fst (retryLoop en p maxRetries attempt w) = Inl (GenerationExhausted maxRetries) \<and>
         backend_calls (snd (retryLoop en p maxRetries attempt w)) =
           backend_calls w @ replicate (Suc d) p"
  using assms
proof (induction d arbitrary: attempt w)
  case 0
  then show ?case by (subst (1 2) retryLoop.simps) (simp add: Let_def)
next
  case (Suc d)
  define w' where
    "w' = w\<lparr>backend_calls := backend_calls w @ [p], delays := delays w @ [1000 * attempt]\<rparr>"
  from Suc.prems(2) have none: "attemptResult en (length (backend_calls w)) p = None"
    by (metis add.right_neutral zero_le)
  from Suc.prems(1) have lt: "attempt \<le> maxRetries" "attempt \<noteq> maxRetries" by simp_all
  have step: "retryLoop en p maxRetries attempt w = retryLoop en p maxRetries (attempt + 1) w'"
    using none lt by (subst retryLoop.simps) (simp add: Let_def w'_def)
  have a: "(attempt + 1) + d = maxRetries" using Suc.prems(1) by simp
  have b: "\<forall>j\<le>d. attemptResult en (length (backend_calls w') + j) p = None"
  proof (intro allI impI)
    fix j assume "j \<le> d"
    then have "Suc j \<le> Suc d" by simp
    with Suc.prems(2) have "attemptResult en (length (backend_calls w) + Suc j) p = None" by blast
    then show "attemptResult en (length (backend_calls w') + j) p = None" by (simp add: w'_def)
  qed
  from Suc.IH [OF a b] show ?case
    unfolding step by (simp add: w'_def replicate_app_Cons_same)
qed

text \<open>
  C1.  For every prompt and every bound \<open>maxRetries \<ge> 1\<close>: when every attempt fails
  (the backend call throws, or the normalized text does not parse),
  \<open>generateValidJsonWithRetries\<close> calls the backend exactly \<open>maxRetries\<close> times, each
  time with the same prompt, and throws the error that carries \<open>maxRetries\<close>; when the
  first attempt that yields parseable text is attempt \<open>k \<le> maxRetries\<close>, it calls the
  backend exactly \<open>k\<close> times and returns the parsed value.
\<close>

theorem retry_bound:
  assumes "1 \<le> maxRetries"
  shows "((\<forall>j<maxRetries. attemptResult en (length (backend_calls w) + j) p = None) \<longrightarrow>
            fst (generateValidJsonWithRetries en p maxRetries w) =
              Inl (GenerationExhausted maxRetries) \<and>
            backend_calls (snd (generateValidJsonWithRetries en p maxRetries w)) =
              backend_calls w @ replicate maxRetries p) \<and>
         (1 \<le> k \<and> k \<le> maxRetries \<and>
            (\<forall>j<k - 1. attemptResult en (length (backend_calls w) + j) p = None) \<and>
            attemptResult en (length (backend_calls w) + (k - 1)) p = Some v \<longrightarrow>
            fst (generateValidJsonWithRetries en p maxRetries w) = Inr v \<and>
            backend_calls (snd (generateValidJsonWithRetries en p maxRetries w)) =
              backend_calls w @ replicate k p)"
proof (intro conjI impI)
  assume all: "\<forall>j<maxRetries. attemptResult en (length (backend_calls w) + j) p = None"
  from assms obtain d where d: "maxRetries = Suc d" by (cases maxRetries) auto
  have a: "1 + d = maxRetries" using d by simp
  have b: "\<forall>j\<le>d. attemptResult en (length (backend_calls w) + j) p = None"
    using all d by auto
  from retryLoop_exhausted [OF a b]
  show "fst (generateValidJsonWithRetries en p maxRetries w) = Inl (GenerationExhausted maxRetries)"
    and "backend_calls (snd (generateValidJsonWithRetries en p maxRetries w)) =
           backend_calls w @ replicate maxRetries p"
    by (simp_all add: generateValidJsonWithRetries_def d)
next
  assume h: "1 \<le> k \<and> k \<le> maxRetries \<and>
    (\<forall>j<k - 1. attemptResult en (length (backend_calls w) + j) p = None) \<and>
    attemptResult en (length (backend_calls w) + (k - 1)) p = Some v"
  then obtain d where d: "k = Suc d" by (cases k) auto
  have a: "1 + d \<le> maxRetries" using h d by simp
  have b: "\<forall>j<d. attemptResult en (length (backend_calls w) + j) p = None" using h d by simp
  have c: "attemptResult en (length (backend_calls w) + d) p = Some v" using h d by simp
  from retryLoop_success [OF a b c]
  show "fst (generateValidJsonWithRetries en p maxRetries w) = Inr v"
    and "backend_calls (snd (generateValidJsonWithRetries en p maxRetries w)) =
           backend_calls w @ replicate k p"
    by (simp_all add: generateValidJsonWithRetries_def d)
qed

text \<open>
  With a backend that throws at its first call, answers prose at its second and fenced
  JSON from its third call on: a bound of 2 is exhausted after 2 calls, a bound of 5
  returns the parsed object after 3 calls.
\<close>

theorem retry_bound_witness:
  "fst (generateValidJsonWithRetries retry_env retry_prompt 2 world0) =
     Inl (GenerationExhausted 2) \<and>
   backend_calls (snd (generateValidJsonWithRetries retry_env retry_prompt 2 world0)) =
     [retry_prompt, retry_prompt] \<and>
   fst (generateValidJsonWithRetries retry_env retry_prompt 5 world0) = Inr (JObj []) \<and>
   backend_calls (snd (generateValidJsonWithRetries retry_env retry_prompt 5 world0)) =
     [retry_prompt, retry_prompt, retry_prompt]"
proof -
  have a0: "attemptResult retry_env 0 retry_prompt = None"
    by (simp add: attemptResult_def retry_env_def)
  have a1: "attemptResult retry_env 1 retry_prompt = None"
    by (simp add: attemptResult_def retry_env_def parse_table_def norm_eval ascii_def)
  have a2: "attemptResult retry_env 2 retry_prompt = Some (JObj [])"
    by (simp add: attemptResult_def retry_env_def parse_table_def norm_eval ascii_def)
  have n: "length (backend_calls world0) = 0" by (simp add: world0_def)
  have h1: "\<forall>j<2. attemptResult retry_env (length (backend_calls world0) + j) retry_prompt = None"
    using a0 a1 by (simp add: n less_2_cases_iff)
  have h2: "\<forall>j<3 - 1. attemptResult retry_env (length (backend_calls world0) + j) retry_prompt = None"
    using a0 a1 by (simp add: n less_2_cases_iff)
  have h3: "attemptResult retry_env (length (backend_calls world0) + (3 - 1)) retry_prompt =
      Some (JObj [])"
    using a2 by (simp add: n numeral_2_eq_2)
  from retry_bound [of 2 retry_env world0 retry_prompt] h1
  have r1: "fst (generateValidJsonWithRetries retry_env retry_prompt 2 world0) =
              Inl (GenerationExhausted 2)
            \<and> backend_calls (snd (generateValidJsonWithRetries retry_env retry_prompt 2 world0)) =
              backend_calls world0 @ replicate 2 retry_prompt"
    by simp
  from retry_bound [of 5 retry_env world0 retry_prompt 3 "JObj []"] h2 h3
  have r2: "fst (generateValidJsonWithRetries retry_env retry_prompt 5 world0) = Inr (JObj [])
            \<and> backend_calls (snd (generateValidJsonWithRetries retry_env retry_prompt 5 world0)) =
              backend_calls world0 @ replicate 3 retry_prompt"
    by simp
  from r1 r2 show ?thesis by (simp add: world0_def numeral_2_eq_2 numeral_3_eq_3)
qed

section \<open>Normalization\<close>


lemma fence_json_take3: "take 7 s = fence_json \<Longrightarrow> take 3 s = fence"
proof -
  assume a: "take 7 s = fence_json"
  have "take 3 s = take 3 (take 7 s)" by simp
  also have "\<dots> = fence" unfolding a by (simp add: fence_json_def fence_def)
  finally show ?thesis .
qed

lemma hasFence_Cons: "s \<noteq> [] \<Longrightarrow> hasFence s = (take 3 s = fence \<or> hasFence (tl s))"
  by (cases s) simp_all

lemma replace_fences_id: "\<not> hasFence s \<Longrightarrow> replace_fences s = s"
proof (induction s rule: replace_fences.induct)
  case (1 s)
  show ?case
  proof (cases "s = []")
    case True
    then show ?thesis by (simp add: replace_fences.simps)
  next
    case False
    with "1.prems" have nf: "take 3 s \<noteq> fence" and nt: "\<not> hasFence (tl s)"
      by (simp_all add: hasFence_Cons)
    from nf have nj: "take 7 s \<noteq> fence_json" using fence_json_take3 by blast
    from "1.IH"(3) [OF False nj nf nt] have "replace_fences (tl s) = tl s" .
    with False nf nj show ?thesis
      by (subst replace_fences.simps) simp
  qed
qed

lemma replace_fences_length: "length (replace_fences s) \<le> length s"
proof (induction s rule: replace_fences.induct)
  case (1 s)
  show ?case
  proof (cases "s = []")
    case True
    then show ?thesis by (simp add: replace_fences.simps)
  next
    case False
    note ne = False
    show ?thesis
    proof (cases "take 7 s = fence_json")
      case True
      from "1.IH"(1) [OF ne True] have "length (replace_fences (drop 7 s)) \<le> length s - 7" by simp
      with ne True show ?thesis by (subst replace_fences.simps) simp
    next
      case False
      note nj = False
      show ?thesis
      proof (cases "take 3 s = fence")
        case True
        from "1.IH"(2) [OF ne nj True] have "length (replace_fences (drop 3 s)) \<le> length s - 3" by simp
        with ne nj True show ?thesis by (subst replace_fences.simps) simp
      next
        case False
        from "1.IH"(3) [OF ne nj False] have "length (replace_fences (tl s)) \<le> length s - 1" by simp
        with ne nj False show ?thesis
          by (subst replace_fences.simps) (cases s, simp_all)
      qed
    qed
  qed
qed

lemma replace_fences_shorter: "hasFence s \<Longrightarrow> length (replace_fences s) < length s"
proof (induction s rule: replace_fences.induct)
  case (1 s)
  from "1.prems" have ne: "s \<noteq> []" by auto
  then have pos: "0 < length s" by simp
  show ?case
  proof (cases "take 7 s = fence_json")
    case True
    have "length (replace_fences (drop 7 s)) \<le> length s - 7"
      using replace_fences_length [of "drop 7 s"] by simp
    moreover have "replace_fences s = replace_fences (drop 7 s)"
      using ne True by (subst replace_fences.simps) simp
    ultimately show ?thesis using pos by arith
  next
    case False
    note nj = False
    show ?thesis
    proof (cases "take 3 s = fence")
      case True
      have "length (replace_fences (drop 3 s)) \<le> length s - 3"
        using replace_fences_length [of "drop 3 s"] by simp
      moreover have "replace_fences s = replace_fences (drop 3 s)"
        using ne nj True by (subst replace_fences.simps) simp
      ultimately show ?thesis using pos by arith
    next
      case False
      with "1.prems" ne have "hasFence (tl s)" by (simp add: hasFence_Cons)
      from "1.IH"(3) [OF ne nj False this] have "length (replace_fences (tl s)) < length (tl s)" .
      moreover have "replace_fences s = hd s # replace_fences (tl s)"
        using ne nj False by (subst replace_fences.simps) simp
      ultimately show ?thesis using pos by simp
    qed
  qed
qed

lemma trim_length: "length (trim s) \<le> length s"
proof -
  have "length (dropWhile isWhiteSpace (rev (dropWhile isWhiteSpace s)))
          \<le> length (rev (dropWhile isWhiteSpace s))"
    by (rule length_dropWhile_le)
  also have "\<dots> \<le> length s" by (simp add: length_dropWhile_le)
  finally show ?thesis by (simp add: trim_def)
qed

lemma set_trim: "set (trim s) \<subseteq> set s"
proof -
  have "set (dropWhile isWhiteSpace (rev (dropWhile isWhiteSpace s)))
          \<subseteq> set (rev (dropWhile isWhiteSpace s))"
    by (rule set_dropWhileD [THEN subsetI])
  also have "\<dots> \<subseteq> set s" using set_dropWhileD by fastforce
  finally show ?thesis by (simp add: trim_def)
qed

lemma trim_fixed:
  assumes "s = [] \<or> (\<not> isWhiteSpace (hd s) \<and> \<not> isWhiteSpace (last s))"
  shows "trim s = s"
proof (cases "s = []")
  case True
  then show ?thesis by (simp add: trim_def)
next
  case False
  with assms have h: "\<not> isWhiteSpace (hd s)" and l: "\<not> isWhiteSpace (last s)" by auto
  from False h have "dropWhile isWhiteSpace s = s" by (cases s) simp_all
  moreover from False l have "dropWhile isWhiteSpace (rev s) = rev s"
    by (cases "rev s") (simp_all add: last_rev [symmetric] hd_rev)
  ultimately show ?thesis by (simp add: trim_def)
qed

lemma dropWhile_opener:
  "\<not> P c \<Longrightarrow> \<exists>zs. dropWhile P (ys @ [c]) = zs @ [c]"
  by (induction ys) auto

lemma trim_keeps_head:
  assumes "\<not> isWhiteSpace c"
  shows "\<exists>zs. trim (c # y) = c # zs"
proof -
  from assms have a: "dropWhile isWhiteSpace (c # y) = c # y" by simp
  obtain zs where "dropWhile isWhiteSpace (rev y @ [c]) = zs @ [c]"
    using dropWhile_opener [of isWhiteSpace c "rev y"] assms by blast
  with a show ?thesis by (simp add: trim_def)
qed

lemma trim_ends:
  "trim s = [] \<or> (\<not> isWhiteSpace (hd (trim s)) \<and> \<not> isWhiteSpace (last (trim s)))"
proof (cases "trim s = []")
  case True
  then show ?thesis by simp
next
  case False
  define y where "y = dropWhile isWhiteSpace s"
  define z where "z = dropWhile isWhiteSpace (rev y)"
  have t: "trim s = rev z" by (simp add: trim_def y_def z_def)
  with False have zne: "z \<noteq> []" by simp
  then have hz: "\<not> isWhiteSpace (hd z)" unfolding z_def by (rule hd_dropWhile)
  from zne have yne: "y \<noteq> []" unfolding z_def by auto
  then have hy: "\<not> isWhiteSpace (hd y)" unfolding y_def by (rule hd_dropWhile)
  obtain pre where "rev y = pre @ z"
    unfolding z_def by (metis takeWhile_dropWhile_id)
  with zne have "last z = last (rev y)" by simp
  also have "\<dots> = hd y" using yne by (simp add: last_rev)
  finally have lz: "\<not> isWhiteSpace (last z)" using hy by simp
  from zne hz lz show ?thesis unfolding t by (simp add: hd_rev last_rev)
qed


lemma normalize_chars:
  assumes "c \<in> set (normalize_text s)"
  shows "\<not> isControl c \<or> c = 0x0A \<or> c = 0x09"
proof -
  from assms have "c \<in> set (replace_control
      (replace_leading (replace_nul (replace_cr (replace_fences s)))))"
    unfolding normalize_text_def using set_trim by blast
  then show ?thesis by (simp add: replace_control_def)
qed

lemma normalize_head:
  "normalize_text s = [] \<or> hd (normalize_text s) = 0x7B \<or> hd (normalize_text s) = 0x5B"
proof -
  define u where "u = replace_leading (replace_nul (replace_cr (replace_fences s)))"
  have n: "normalize_text s = trim (replace_control u)" by (simp add: normalize_text_def u_def)
  show ?thesis
  proof (cases "u = []")
    case True
    then show ?thesis by (simp add: n replace_control_def trim_def)
  next
    case False
    then obtain c u' where u: "u = c # u'" by (cases u) auto
    have "\<not> (hd u \<noteq> 0x7B \<and> hd u \<noteq> 0x5B)"
      using False unfolding u_def replace_leading_def by (rule hd_dropWhile)
    with u have c: "c = 0x7B \<or> c = 0x5B" by simp
    then have nc: "\<not> isControl c" and nw: "\<not> isWhiteSpace c"
      by (auto simp: isControl_def isWhiteSpace_def)
    from nc u have "replace_control u = c # replace_control u'"
      by (simp add: replace_control_def)
    with trim_keeps_head [OF nw] obtain zs where "trim (replace_control u) = c # zs"
      by metis
    with n c show ?thesis by auto
  qed
qed

lemma normalize_fixed:
  assumes "\<not> hasFence (normalize_text s)"
  shows "normalize_text (normalize_text s) = normalize_text s"
proof -
  define t where "t = normalize_text s"
  have chars: "\<And>c. c \<in> set t \<Longrightarrow> \<not> isControl c \<or> c = 0x0A \<or> c = 0x09"
    unfolding t_def by (rule normalize_chars)
  have 1: "replace_fences t = t" using assms unfolding t_def by (rule replace_fences_id)
  have "0x0D \<notin> set t" using chars [of "0x0D"] by (auto simp: isControl_def)
  then have 2: "replace_cr t = t"
    unfolding replace_cr_def by (auto simp: filter_id_conv)
  have "0x00 \<notin> set t" using chars [of "0x00"] by (auto simp: isControl_def)
  then have 3: "replace_nul t = t"
    unfolding replace_nul_def by (auto simp: filter_id_conv)
  have 4: "replace_leading t = t"
    using normalize_head [of s] unfolding t_def [symmetric] replace_leading_def
    by (cases t) auto
  have 5: "replace_control t = t"
    unfolding replace_control_def using chars by (auto simp: filter_id_conv)
  have 6: "trim t = t"
    unfolding t_def normalize_text_def by (rule trim_fixed) (rule trim_ends)
  show ?thesis unfolding t_def [symmetric] by (simp add: normalize_text_def [of t] 1 2 3 4 5 6)
qed

lemma normalize_length: "length (normalize_text s) \<le> length (replace_fences s)"
proof -
  have "length (normalize_text s) \<le>
      length (replace_control (replace_leading (replace_nul (replace_cr (replace_fences s)))))"
    unfolding normalize_text_def by (rule trim_length)
  also have "\<dots> \<le> length (replace_leading (replace_nul (replace_cr (replace_fences s))))"
    by (simp add: replace_control_def)
  also have "\<dots> \<le> length (replace_nul (replace_cr (replace_fences s)))"
    by (simp add: replace_leading_def length_dropWhile_le)
  also have "\<dots> \<le> length (replace_cr (replace_fences s))"
    by (simp add: replace_nul_def)
  also have "\<dots> \<le> length (replace_fences s)"
    by (simp add: replace_cr_def)
  finally show ?thesis .
qed

subsection \<open>Normalizing well-formed answers\<close>

lemma unat_ascii_char: "unat (of_nat (of_char c) :: 16 word) = of_char c"
proof -
  have a: "(of_char c :: nat) < 256" by simp
  have "(256 :: nat) < 2 ^ 16" by simp
  with a have "(of_char c :: nat) < 2 ^ 16" by (rule less_trans)
  then have "of_char c mod 2 ^ LENGTH(16) = (of_char c :: nat)" by simp
  then show ?thesis by (simp only: unat_of_nat)
qed

lemma ascii_char_inj: "(of_nat (of_char c) :: 16 word) = of_nat (of_char d) \<longleftrightarrow> c = d"
proof
  assume "(of_nat (of_char c) :: 16 word) = of_nat (of_char d)"
  then have "unat (of_nat (of_char c) :: 16 word) = unat (of_nat (of_char d) :: 16 word)" by simp
  then have "(of_char c :: nat) = of_char d" by (simp only: unat_ascii_char)
  then show "c = d" by simp
qed simp

lemma ascii_inj [simp]: "ascii s = ascii t \<longleftrightarrow> s = t"
proof (induction s arbitrary: t)
  case Nil
  then show ?case by (auto simp: ascii_def)
next
  case (Cons c s)
  then show ?case by (cases t) (auto simp: ascii_def ascii_char_inj)
qed

lemma ascii_Nil [simp]: "ascii [] = []"
  by (simp add: ascii_def)

lemma ascii_append: "ascii (s @ t) = ascii s @ ascii t"
  by (simp add: ascii_def)

lemma ascii_eq_Nil [simp]: "ascii s = [] \<longleftrightarrow> s = []"
  by (simp add: ascii_def)



















subsection \<open>Idempotence\<close>

text \<open>
  C8, as the code has it.  Normalizing a normalized text changes nothing exactly when
  the normalized text contains no fence marker \<^verbatim>\<open>```\<close>.  The fence markers are removed
  first, and the later deletions of carriage returns, null bytes and control characters
  can join backticks into a new marker, which a second pass then removes.
\<close>

theorem normalize_idempotent_iff:
  "normalize_text (normalize_text s) = normalize_text s \<longleftrightarrow> \<not> hasFence (normalize_text s)"
proof
  assume eq: "normalize_text (normalize_text s) = normalize_text s"
  show "\<not> hasFence (normalize_text s)"
  proof
    assume "hasFence (normalize_text s)"
    then have "length (replace_fences (normalize_text s)) < length (normalize_text s)"
      by (rule replace_fences_shorter)
    with normalize_length [of "normalize_text s"] have "length (normalize_text (normalize_text s)) < length (normalize_text s)"
      by simp
    with eq show False by simp
  qed
next
  assume "\<not> hasFence (normalize_text s)"
  then show "normalize_text (normalize_text s) = normalize_text s" by (rule normalize_fixed)
qed

text \<open>The prose preamble and the trailing blanks are removed once and for all.\<close>

theorem normalize_idempotent_iff_witness:
  "\<not> hasFence (normalize_text (ascii ''Sure: {}  '')) \<and>
   normalize_text (normalize_text (ascii ''Sure: {}  '')) = normalize_text (ascii ''Sure: {}  '')"
proof -
  have n: "normalize_text (ascii ''Sure: {}  '') = ascii ''{}''"
    by (simp add: norm_eval ascii_def)
  have "\<not> hasFence (normalize_text (ascii ''Sure: {}  ''))"
    unfolding n by (simp add: ascii_def fence_def)
  with normalize_idempotent_iff [of "ascii ''Sure: {}  ''"] show ?thesis by simp
qed

text \<open>
  C8, as stated, fails: the text \<^verbatim>\<open>{``\r`\<close> normalizes to \<^verbatim>\<open>{```\<close>, which
  normalizes to \<^verbatim>\<open>{\<close>.
\<close>

theorem normalize_not_idempotent:
  "normalize_text (normalize_text split_fence) \<noteq> normalize_text split_fence"
proof -
  have 1: "normalize_text split_fence = [0x7B, 0x60, 0x60, 0x60]"
    by (simp add: split_fence_def norm_eval)
  have 2: "normalize_text [0x7B, 0x60, 0x60, 0x60] = [0x7B]"
    by (simp add: norm_eval)
  show ?thesis unfolding 1 2 by simp
qed

section \<open>What each stage can do to the world\<close>

lemma quiet_refl [simp]: "quiet w w"
  by (simp add: quiet_def)


lemma andThen_Inl: "m w = (Inl e, w') \<Longrightarrow> andThen m f w = (Inl e, w')"
  by (simp add: andThen_def)

lemma andThen_Inr: "m w = (Inr x, w') \<Longrightarrow> andThen m f w = f x w'"
  by (simp add: andThen_def)









lemma pureErr_Inr [simp]: "pureErr (Inr x)"
  by (simp add: pureErr_def)

lemma pureErr_andThenE: "pureErr r \<Longrightarrow> (\<And>x. pureErr (f x)) \<Longrightarrow> pureErr (andThenE r f)"
  by (cases r) (auto simp: pureErr_def andThenE_def)

lemma pureErr_getProp [simp]: "pureErr (getProp v name)"
  by (simp add: pureErr_def getProp_def)

lemma pureErr_iterate [simp]: "pureErr (iterate v)"
  by (cases v) (simp_all add: pureErr_def iterate_def)

lemma pureErr_getIter [simp]: "pureErr (andThenE (getProp v name) iterate)"
  by (intro pureErr_andThenE) simp_all

lemma pureErr_makeContentBlock [simp]: "pureErr (makeContentBlock uid block)"
  by (simp add: pureErr_def makeContentBlock_def)

lemma pureErr_sectionsPrompt [simp]: "pureErr (getAllSectionsContentPrompt ctx ps)"
  unfolding getAllSectionsContentPrompt_def by (intro pureErr_andThenE) simp_all

lemma pureErr_timeBudgets [simp]: "pureErr (timeBudgets en tc syl)"
  unfolding timeBudgets_def by (intro pureErr_andThenE) simp_all

lemma pureErr_mapE: "(\<And>x. pureErr (f x)) \<Longrightarrow> pureErr (mapE f xs)"
  by (induction xs) (auto intro!: pureErr_andThenE)

lemma pureErr_questionOf [simp]: "pureErr (questionOf q)"
  by (simp add: pureErr_def questionOf_def)

lemma pureErr_map_js: "(\<And>x. pureErr (f x)) \<Longrightarrow> pureErr (map_js v f)"
  by (cases v) (simp_all add: map_js_def pureErr_mapE, simp_all add: pureErr_def)

lemma pureErr_quizDataOf [simp]: "pureErr (quizDataOf en l)"
  unfolding quizDataOf_def by (intro pureErr_andThenE pureErr_map_js) simp_all

lemma pureErr_lessonDataOf [simp]: "pureErr (lessonDataOf en idx l)"
  unfolding lessonDataOf_def by (intro pureErr_andThenE) simp_all

lemma pureErr_courseDataOf [simp]: "pureErr (courseDataOf en req syl ls post)"
  unfolding courseDataOf_def
  by (intro pureErr_andThenE pureErr_mapE) (simp_all add: split_def)

lemma pureErr_parseRequest [simp]: "pureErr (parseRequest en msg)"
  by (simp add: pureErr_def parseRequest_def Let_def split: option.splits if_splits)

lemma pureErr_getRandomApiKey [simp]: "pureErr (getRandomApiKey en)"
  by (simp add: pureErr_def getRandomApiKey_def Let_def split: option.splits if_splits)


























section \<open>Runs with a well-formed backend\<close>



lemma succeeds_sendData: "\<not> isTerminal ev \<Longrightarrow> Q () \<Longrightarrow> succeeds (sendData ev) Q"
  by (simp add: succeeds_def sendData_def quiet_def)

lemma succeeds_crypto_randomUUID: "(\<And>u. Q u) \<Longrightarrow> succeeds (crypto_randomUUID en) Q"
  by (simp add: succeeds_def crypto_randomUUID_def quiet_def)

































subsection \<open>The small course\<close>


lemma nullish_obj [simp]: "\<not> nullish (obj kvs)"
  by (simp add: nullish_def obj_def)







lemma isObj_obj [simp]: "isObj (obj kvs)"
  by (simp add: isObj_def obj_def)









section \<open>The run that aborts in the second lesson\<close>














section \<open>Time budgets\<close>



































section \<open>A syllabus without lessons\<close>


lemma empty_distinct: "empty_syllabus_json \<notin> set (map fst demo_table)"
  by (simp add: demo_table_def empty_syllabus_json_def demo_message_json_def
      demo_syllabus_json_def demo_context_json_def demo_sections_json_def demo_quiz_json_def
      demo_post_json_def)









section \<open>Content blocks\<close>


lemma blocksFrom_length [simp]: "length (blocksFrom en n bs) = length bs"
  by (induction bs arbitrary: n) simp_all


















section \<open>Persisted quizzes\<close>




end
